theory Spec2Isabelle
  imports Main
begin

section \<open>JavaScript values and the string methods the sanitizer calls\<close>

text \<open>
  The sanitizer is declared on \<^verbatim>\<open>string\<close>, but its first line tests
  \<^verbatim>\<open>typeof arg !== 'string'\<close>, so at run time it can receive any value. The values
  are the primitives of the language plus one opaque plain object (an object or array
  that carries no \<^verbatim>\<open>startsWith\<close> property). The payload of a number is never
  inspected by the code below. A string is a list of characters; the two quote
  characters are ASCII, code points 0x22 and 0x27.
\<close>

datatype jsval =
    JString string
  | JNumber int
  | JBoolean bool
  | JNull
  | JUndefined
  | JObject

datatype js_error = TypeError

fun typeof :: "jsval \<Rightarrow> string" where
  "typeof (JString _) = ''string''"
| "typeof (JNumber _) = ''number''"
| "typeof (JBoolean _) = ''boolean''"
| "typeof JNull = ''object''"
| "typeof JUndefined = ''undefined''"
| "typeof JObject = ''object''"

abbreviation dquote :: string where
  "dquote \<equiv> [CHR 0x22]"

abbreviation squote :: string where
  "squote \<equiv> [CHR 0x27]"

text \<open>\<^verbatim>\<open>String.prototype.startsWith(search)\<close>, position 0.\<close>

definition startsWith :: "string \<Rightarrow> string \<Rightarrow> bool" where
  "startsWith s search = (take (length search) s = search)"

text \<open>\<^verbatim>\<open>String.prototype.endsWith(search)\<close>, end position the length of the string.\<close>

definition endsWith :: "string \<Rightarrow> string \<Rightarrow> bool" where
  "endsWith s search =
     (length search \<le> length s \<and> drop (length s - length search) s = search)"

text \<open>
  \<^verbatim>\<open>String.prototype.slice(start, end)\<close>: a negative index counts from the end of
  the string, both indices are clamped to the string, and an empty range gives the
  empty string.
\<close>

definition slice :: "string \<Rightarrow> int \<Rightarrow> int \<Rightarrow> string" where
  "slice s start end =
     (let len = int (length s);
          from = (if start < 0 then max (len + start) 0 else min start len);
          to = (if end < 0 then max (len + end) 0 else min end len)
      in take (nat (to - from)) (drop (nat from) s))"

section \<open>Argument sanitizer\<close>

text \<open>
  \<^verbatim>\<open>
  function sanitizeArg(arg: string): string {
    if (typeof arg !== 'string') return '';
    if ((arg.startsWith('"') && arg.endsWith('"')) ||
        (arg.startsWith("'") && arg.endsWith("'"))) {
      return arg.slice(1, -1);
    }
    return arg;
  }
  \<close>
\<close>

definition sanitizeArg :: "jsval \<Rightarrow> string" where
  "sanitizeArg arg =
     (if typeof arg \<noteq> ''string'' then ''''
      else (case arg of
              JString a \<Rightarrow>
                (if (startsWith a dquote \<and> endsWith a dquote) \<or>
                    (startsWith a squote \<and> endsWith a squote)
                 then slice a 1 (- 1)
                 else a)
            | _ \<Rightarrow> ''''))"

text \<open>
  \<^verbatim>\<open>
  function sanitizeArgs(args: string[]): string[] {
    return args.map(arg => {
      if ((arg.startsWith('"') && arg.endsWith('"')) ||
          (arg.startsWith("'") && arg.endsWith("'"))) {
        return arg.slice(1, -1);
      }
      return arg;
    });
  }
  \<close>
  The copy in the client has no \<^verbatim>\<open>typeof\<close> test. On a value that is not a string
  \<^verbatim>\<open>arg.startsWith\<close> is not a function (or \<^verbatim>\<open>arg\<close> has no properties at all),
  so the call raises a TypeError, which leaves \<^verbatim>\<open>map\<close> at the first such element.
\<close>

definition sanitizeArgs_callback :: "jsval \<Rightarrow> js_error + string" where
  "sanitizeArgs_callback arg =
     (case arg of
        JString a \<Rightarrow>
          Inr (if (startsWith a dquote \<and> endsWith a dquote) \<or>
                  (startsWith a squote \<and> endsWith a squote)
               then slice a 1 (- 1)
               else a)
      | _ \<Rightarrow> Inl TypeError)"

fun sanitizeArgs :: "jsval list \<Rightarrow> js_error + string list" where
  "sanitizeArgs [] = Inr []"
| "sanitizeArgs (arg # args) =
     (case sanitizeArgs_callback arg of
        Inl e \<Rightarrow> Inl e
      | Inr r \<Rightarrow> (case sanitizeArgs args of Inl e \<Rightarrow> Inl e | Inr rs \<Rightarrow> Inr (r # rs)))"

text \<open>
  The contract's wording, for comparison with the code: a string is fully wrapped when
  it is an opening quote, a body, and a closing quote of the same kind. Such a string
  has at least two characters.
\<close>

definition fully_wrapped :: "string \<Rightarrow> bool" where
  "fully_wrapped s =
     (2 \<le> length s \<and> hd s = last s \<and> (hd s = CHR 0x22 \<or> hd s = CHR 0x27))"

definition is_quote :: "char \<Rightarrow> bool" where
  "is_quote q = (q = CHR 0x22 \<or> q = CHR 0x27)"

section \<open>Tool selection state of the renderer\<close>

text \<open>
  \<^verbatim>\<open>
  let mcpServerStatus: MCPServerStatus[] = [];
  let selectedMCPTools: Set<string> = new Set();      // "serverId:toolName"
  let selectedMCPServers: Set<string> = new Set();     // serverIds
  let toolsPopupExpanded: Set<string> = new Set();     // expanded serverIds
  \<close>
  The interfaces \<^verbatim>\<open>MCPServerStatus\<close> and \<^verbatim>\<open>MCPTool\<close> are used through the
  fields \<^verbatim>\<open>id\<close>, \<^verbatim>\<open>isConnected\<close>, \<^verbatim>\<open>tools\<close> and \<^verbatim>\<open>name\<close>; a record
  scheme leaves room for the others. The field \<^verbatim>\<open>id\<close> is written \<open>id'\<close>. A
  \<^verbatim>\<open>Set<string>\<close> is the list of its elements in insertion order, which is the
  order \<^verbatim>\<open>for ... of\<close> visits them in; \<^verbatim>\<open>has\<close> is membership. No property
  below needs the list to be free of repetitions.
\<close>

record MCPTool =
  name :: string

record MCPServerStatus =
  id' :: string
  isConnected :: bool
  tools :: "MCPTool list"

record mcpState =
  mcpServerStatus :: "MCPServerStatus list"
  selectedMCPTools :: "string list"
  selectedMCPServers :: "string list"
  toolsPopupExpanded :: "string list"

text \<open>
  The element type of the array \<^verbatim>\<open>getSelectedMCPTools\<close> returns,
  \<^verbatim>\<open>{ serverId: string; toolName: string }\<close>.
\<close>

record selectedTool =
  serverId :: string
  toolName :: string

text \<open>
  \<^verbatim>\<open>
  function getSelectedMCPTools(): Array<{ serverId: string; toolName: string }> {
    const tools: Array<{ serverId: string; toolName: string }> = [];
    for (const serverId of selectedMCPServers) {
      // ... find server, add all tools
    }
    for (const toolKey of selectedMCPTools) {
      if (!selectedMCPServers.has(serverId)) {
        tools.push({ serverId, toolName });
      }
    }
    return tools;
  }
  \<close>
  The source gives this function with two parts left out, and neither is filled in
  here.

  \<^item> The body of the first loop is only a comment. It is the parameter \<open>body\<close>:
    what one round of the loop does to the array \<^verbatim>\<open>tools\<close>, given the state of
    the renderer and the server id of the round. Any body that works on the array is an
    instance.
  \<^item> The second loop uses \<^verbatim>\<open>serverId\<close> and \<^verbatim>\<open>toolName\<close>, and the line that
    takes them from \<^verbatim>\<open>toolKey\<close> is not in the listing. It is the parameter
    \<open>bind\<close>: the server id and the tool name of a key.

  The guard and the push of the second loop are as the source has them.
\<close>

fun firstLoop ::
  "(mcpState \<Rightarrow> string \<Rightarrow> selectedTool list \<Rightarrow> selectedTool list) \<Rightarrow>
   mcpState \<Rightarrow> string list \<Rightarrow> selectedTool list \<Rightarrow> selectedTool list" where
  "firstLoop body st [] out = out"
| "firstLoop body st (sid # rest) out = firstLoop body st rest (body st sid out)"

fun secondLoop ::
  "(string \<Rightarrow> string \<times> string) \<Rightarrow> string list \<Rightarrow> string list \<Rightarrow>
   selectedTool list \<Rightarrow> selectedTool list" where
  "secondLoop bind servers [] out = out"
| "secondLoop bind servers (toolKey # rest) out =
     (case bind toolKey of
        (sid, tn) \<Rightarrow>
          if sid \<notin> set servers
          then secondLoop bind servers rest (out @ [\<lparr>serverId = sid, toolName = tn\<rparr>])
          else secondLoop bind servers rest out)"

definition getSelectedMCPTools ::
  "(mcpState \<Rightarrow> string \<Rightarrow> selectedTool list \<Rightarrow> selectedTool list) \<Rightarrow>
   (string \<Rightarrow> string \<times> string) \<Rightarrow> mcpState \<Rightarrow> selectedTool list" where
  "getSelectedMCPTools body bind st =
     secondLoop bind (selectedMCPServers st) (selectedMCPTools st)
       (firstLoop body st (selectedMCPServers st) [])"

text \<open>
  For stating what the result is compared with: the capability names that the current
  status lists for a server id. Every entry with that id counts, connected or not, so
  a name that is not in this list is in no reading of the server's live list.
\<close>

definition discoveryList :: "MCPServerStatus list \<Rightarrow> string \<Rightarrow> string list" where
  "discoveryList status sid =
     concat (map (\<lambda>server. map name (tools server))
               (filter (\<lambda>server. id' server = sid) status))"

text \<open>
  \<^verbatim>\<open>String.prototype.split(sep)\<close> for a separator of one character: the segments
  between the separators, in order; never the empty array.
\<close>

fun split_from :: "char \<Rightarrow> string \<Rightarrow> string \<Rightarrow> string list" where
  "split_from sep cur [] = [cur]"
| "split_from sep cur (c # cs) =
     (if c = sep then cur # split_from sep [] cs else split_from sep (cur @ [c]) cs)"

definition split :: "string \<Rightarrow> char \<Rightarrow> string list" where
  "split s sep = split_from sep [] s"

text \<open>
  \<^verbatim>\<open>const [serverId] = toolKey.split(':')\<close>, as \<^verbatim>\<open>updateToolsBadge\<close> has it.
  The array is never empty, so its first element exists; the first case is there for
  totality only.
\<close>

definition toolKeyServer :: "string \<Rightarrow> string" where
  "toolKeyServer toolKey = (case split toolKey CHR '':'' of [] \<Rightarrow> [] | s # _ \<Rightarrow> s)"

text \<open>
  \<^verbatim>\<open>
  function updateToolsBadge() {
    const badge = $('tools-badge');
    if (!badge) return;
    let count = 0;
    for (const serverId of selectedMCPServers) {
      const server = mcpServerStatus.find(s => s.id === serverId);
      if (server && server.isConnected) {
        count += server.tools.length;
      }
    }
    for (const toolKey of selectedMCPTools) {
      const [serverId] = toolKey.split(':');
      if (!selectedMCPServers.has(serverId)) {
        count++;
      }
    }
    if (count > 0) {
      badge.textContent = count.toString();
      badge.style.display = 'flex';
    } else {
      badge.style.display = 'none';
    }
  }
  \<close>
  This function is given in full.
\<close>

fun countServerTools :: "MCPServerStatus list \<Rightarrow> string list \<Rightarrow> nat \<Rightarrow> nat" where
  "countServerTools status [] count = count"
| "countServerTools status (sid # rest) count =
     (case find (\<lambda>s. id' s = sid) status of
        None \<Rightarrow> countServerTools status rest count
      | Some server \<Rightarrow>
          if isConnected server
          then countServerTools status rest (count + length (tools server))
          else countServerTools status rest count)"

fun countSelectedTools :: "string list \<Rightarrow> string list \<Rightarrow> nat \<Rightarrow> nat" where
  "countSelectedTools servers [] count = count"
| "countSelectedTools servers (toolKey # rest) count =
     (if toolKeyServer toolKey \<notin> set servers
      then countSelectedTools servers rest (Suc count)
      else countSelectedTools servers rest count)"

text \<open>The value of the local \<^verbatim>\<open>count\<close> after the two loops.\<close>

definition toolsBadgeCount :: "mcpState \<Rightarrow> nat" where
  "toolsBadgeCount st =
     countSelectedTools (selectedMCPServers st) (selectedMCPTools st)
       (countServerTools (mcpServerStatus st) (selectedMCPServers st) 0)"

text \<open>\<^verbatim>\<open>Number.prototype.toString()\<close> on a count: its decimal digits.\<close>

definition digit :: "nat \<Rightarrow> char" where
  "digit d = ''0123456789'' ! d"

fun toString :: "nat \<Rightarrow> string" where
  "toString n = (if n < 10 then [digit n] else toString (n div 10) @ [digit (n mod 10)])"

declare toString.simps [simp del]

text \<open>
  The badge element: its text and its \<^verbatim>\<open>style.display\<close>; \<open>None\<close> when
  \<^verbatim>\<open>$('tools-badge')\<close> finds no element, and then nothing is done.
\<close>

record badge =
  badge_textContent :: string
  badge_display :: string

definition updateToolsBadge :: "mcpState \<Rightarrow> badge option \<Rightarrow> badge option" where
  "updateToolsBadge st el =
     (case el of
        None \<Rightarrow> None
      | Some b \<Rightarrow>
          (let count = toolsBadgeCount st
           in if 0 < count
              then Some (b\<lparr>badge_textContent := toString count, badge_display := ''flex''\<rparr>)
              else Some (b\<lparr>badge_display := ''none''\<rparr>)))"

section \<open>Streaming blocks\<close>

text \<open>
  \<^verbatim>\<open>
  const streamingBlocks = {
    thinkingBlocks: new Map<number, StreamingBlock>(),
    toolBlocks: new Map<number, StreamingBlock>(),
    textBlocks: new Map<number, StreamingBlock>(),
    textContent: ''
  };

  function resetStreamingBlocks() {
    streamingBlocks.thinkingBlocks.clear();
    streamingBlocks.toolBlocks.clear();
    streamingBlocks.textBlocks.clear();
    streamingBlocks.textContent = '';
  }
  \<close>
  The interface \<^verbatim>\<open>StreamingBlock\<close> is not declared in the sources; the container
  and its reset do not look into a block, so its type is a parameter.
\<close>

record 'b streamingBlocks =
  thinkingBlocks :: "int \<rightharpoonup> 'b"
  toolBlocks :: "int \<rightharpoonup> 'b"
  textBlocks :: "int \<rightharpoonup> 'b"
  textContent :: string

definition resetStreamingBlocks :: "'b streamingBlocks \<Rightarrow> 'b streamingBlocks" where
  "resetStreamingBlocks sb =
     sb\<lparr>thinkingBlocks := Map.empty, toolBlocks := Map.empty,
        textBlocks := Map.empty, textContent := ''''\<rparr>"

subsection \<open>The event handlers of the assembler\<close>

text \<open>
  The handlers for the events open, append and close are missing from the sources, and
  so is the \<^verbatim>\<open>StreamingBlock\<close> interface; only the container above and its reset
  are there. They are modelled from sections 3 and 4.3 of the specification, each
  definition from the sentences quoted before it.
\<close>

text \<open>
  Modelled from the spec: the kinds of a block are missing from the sources. A block
  has \<^emph>\<open>a kind (reasoning | tool_invocation | tool_result | text)\<close>.
\<close>

datatype kind = Reasoning | ToolInvocation | ToolResult | Text

text \<open>
  Modelled from the spec: the lifecycle state of a block is missing from the sources.
  A block has \<^emph>\<open>a lifecycle state (open | closed)\<close>.
\<close>

datatype lifecycle = Open | Closed

text \<open>
  Modelled from the spec: the \<^verbatim>\<open>StreamingBlock\<close> interface is missing from the
  sources. \<^emph>\<open>One unit of model output under construction: a stable integer index
  (assigned by the producer, not the assembler), a kind, accumulated content (text
  payload, or structured invocation/result payload), and a lifecycle state.\<close> A
  payload is the string of its fragments.
\<close>

record StreamingBlock =
  block_index :: int
  block_kind :: kind
  block_content :: string
  block_state :: lifecycle

text \<open>
  Modelled from the spec: the state the handlers work on. \<^emph>\<open>Blocks of different
  kinds are tracked in kind-partitioned collections keyed by index; within the text
  kind a single running buffer accumulates content from all open-ended text events.\<close>
  An append that is dropped \<^emph>\<open>is counted as a dropped-event metric\<close>, which is the
  third field.
\<close>

record assembler =
  blocks :: "kind \<Rightarrow> int \<rightharpoonup> StreamingBlock"
  textBuffer :: string
  dropped :: nat

text \<open>
  Modelled from the spec: the state in which a response begins, after \<^emph>\<open>reset()
  forces idle, discarding all block state\<close>: no block of any kind, an empty running
  text buffer, nothing dropped.
\<close>

definition fresh_assembler :: assembler where
  "fresh_assembler = \<lparr>blocks = (\<lambda>k. Map.empty), textBuffer = '''', dropped = 0\<rparr>"

text \<open>Storing a block under its kind and index; the other entries stay.\<close>

definition put_block :: "kind \<Rightarrow> int \<Rightarrow> StreamingBlock \<Rightarrow> assembler \<Rightarrow> assembler" where
  "put_block k i b s = s\<lparr>blocks := (blocks s)(k := (blocks s k)(i \<mapsto> b))\<rparr>"

text \<open>
  Modelled from the spec: the handler of open is missing from the sources.
  \<^emph>\<open>open(kind, index) creates a new block entry in the kind-partitioned collection
  keyed by index, state open. Duplicate opens for an already-open index are tolerated as
  no-ops.\<close> And of a closed index: \<^emph>\<open>late events for a closed index are dropped, not
  reopened.\<close>
\<close>

definition open_ev :: "kind \<Rightarrow> int \<Rightarrow> assembler \<Rightarrow> assembler" where
  "open_ev k i s =
     (case blocks s k i of
        Some b \<Rightarrow> s
      | None \<Rightarrow>
          put_block k i
            \<lparr>block_index = i, block_kind = k, block_content = '''', block_state = Open\<rparr> s)"

text \<open>
  Modelled from the spec: the handler of append is missing from the sources.
  \<^emph>\<open>append(kind, index, fragment) appends fragment to the block at index within that
  kind's collection. For the text kind only, fragments append to the single running
  text buffer rather than to a per-index entry. Appending to an unopened or
  already-closed index is a no-op that is counted as a dropped-event metric, not a fatal
  error.\<close>
\<close>

definition append_ev :: "kind \<Rightarrow> int \<Rightarrow> string \<Rightarrow> assembler \<Rightarrow> assembler" where
  "append_ev k i fragment s =
     (case blocks s k i of
        None \<Rightarrow> s\<lparr>dropped := Suc (dropped s)\<rparr>
      | Some b \<Rightarrow>
          if block_state b = Closed then s\<lparr>dropped := Suc (dropped s)\<rparr>
          else if k = Text then s\<lparr>textBuffer := textBuffer s @ fragment\<rparr>
          else put_block k i (b\<lparr>block_content := block_content b @ fragment\<rparr>) s)"

text \<open>
  Modelled from the spec: the handler of close is missing from the sources.
  \<^emph>\<open>close(kind, index) marks the block closed; closed blocks are immutable
  afterward.\<close> A close for an index that was never opened finds no block to mark;
  \<^emph>\<open>the Streaming Assembler never raises on malformed event sequences\<close>.
\<close>

definition close_ev :: "kind \<Rightarrow> int \<Rightarrow> assembler \<Rightarrow> assembler" where
  "close_ev k i s =
     (case blocks s k i of
        None \<Rightarrow> s
      | Some b \<Rightarrow> put_block k i (b\<lparr>block_state := Closed\<rparr>) s)"

text \<open>
  Modelled from the spec: the content of the closed block of a kind at an index, if
  there is one. It is what the block accumulated, which for the text kind is the
  running text buffer, since text fragments are not kept per index.
\<close>

definition closedContent :: "assembler \<Rightarrow> kind \<Rightarrow> int \<Rightarrow> string option" where
  "closedContent s k i =
     (case blocks s k i of
        None \<Rightarrow> None
      | Some b \<Rightarrow>
          if block_state b = Closed
          then Some (if k = Text then textBuffer s else block_content b)
          else None)"

section \<open>Properties of the sanitizer\<close>

lemma slice_1_m1: "slice s 1 (- 1) = butlast (tl s)"
proof (cases s)
  case Nil
  then show ?thesis by (simp add: slice_def)
next
  case (Cons x xs)
  have "nat (int (length xs) - 1) = length xs - Suc 0" by arith
  then show ?thesis
    using Cons by (simp add: slice_def Let_def butlast_conv_take)
qed

lemma startsWith_char: "startsWith a [q] \<longleftrightarrow> (a \<noteq> [] \<and> hd a = q)"
  by (cases a) (auto simp: startsWith_def)

lemma endsWith_char: "endsWith a [q] \<longleftrightarrow> (a \<noteq> [] \<and> last a = q)"
proof (cases a rule: rev_cases)
  case Nil
  then show ?thesis by (simp add: endsWith_def)
next
  case (snoc ys y)
  then show ?thesis by (simp add: endsWith_def)
qed

text \<open>
  What the code does on a string: the test of the \<^verbatim>\<open>if\<close> holds exactly when the
  string is not empty and its first and last character are the same quote character, and
  then the first and the last character are removed.
\<close>

lemma sanitizeArg_string:
  "sanitizeArg (JString a) =
     (if a \<noteq> [] \<and> hd a = last a \<and> is_quote (hd a) then butlast (tl a) else a)"
  by (auto simp: sanitizeArg_def startsWith_char endsWith_char slice_1_m1 is_quote_def)

lemma fully_wrapped_iff:
  "fully_wrapped s \<longleftrightarrow> (\<exists>q body. is_quote q \<and> s = q # body @ [q])"
proof
  assume w: "fully_wrapped s"
  then have len: "2 \<le> length s" by (simp add: fully_wrapped_def)
  then obtain q t where s: "s = q # t" by (cases s) auto
  with len have t: "t \<noteq> []" by auto
  from t obtain body z where t': "t = body @ [z]"
    by (cases t rule: rev_cases) auto
  from w s t' have "z = q" "is_quote q"
    by (auto simp: fully_wrapped_def is_quote_def)
  with s t' show "\<exists>q body. is_quote q \<and> s = q # body @ [q]" by auto
next
  assume "\<exists>q body. is_quote q \<and> s = q # body @ [q]"
  then show "fully_wrapped s"
    by (auto simp: fully_wrapped_def is_quote_def)
qed

lemma not_wrapped_cases:
  assumes "\<not> fully_wrapped s" and "s \<noteq> dquote" and "s \<noteq> squote"
  shows "\<not> (s \<noteq> [] \<and> hd s = last s \<and> is_quote (hd s))"
proof
  assume h: "s \<noteq> [] \<and> hd s = last s \<and> is_quote (hd s)"
  then obtain q t where s: "s = q # t" by (cases s) auto
  show False
  proof (cases t)
    case Nil
    with h s assms(2,3) show False by (auto simp: is_quote_def)
  next
    case (Cons y ys)
    with h s have "fully_wrapped s"
      by (auto simp: fully_wrapped_def is_quote_def)
    with assms(1) show False by simp
  qed
qed

lemma sanitizeArgs_callback_string:
  "sanitizeArgs_callback (JString a) = Inr (sanitizeArg (JString a))"
  by (simp add: sanitizeArgs_callback_def sanitizeArg_def)

lemma typeof_string: "typeof v = ''string'' \<longleftrightarrow> (\<exists>a. v = JString a)"
  by (cases v) auto

text \<open>
  C3, as stated, fails: on the list holding the number 5 the client's
  \<^verbatim>\<open>sanitizeArgs\<close> raises a TypeError, while mapping \<^verbatim>\<open>sanitizeArg\<close> over the
  same list gives the list holding the empty string.
\<close>

theorem sanitizeArgs_number_counterexample:
  "sanitizeArgs [JNumber 5] = Inl TypeError \<and> map sanitizeArg [JNumber 5] = ['''']"
  by (simp add: sanitizeArgs_callback_def sanitizeArg_def)

text \<open>
  C3, amended: for every list of arguments whose elements are all strings (what the
  declared type \<^verbatim>\<open>string[]\<close> admits), \<^verbatim>\<open>sanitizeArgs\<close> returns, without raising,
  exactly the list obtained by mapping \<^verbatim>\<open>sanitizeArg\<close> over it.
\<close>

theorem sanitizeArgs_agrees_on_strings:
  "\<forall>a \<in> set args. typeof a = ''string'' \<Longrightarrow> sanitizeArgs args = Inr (map sanitizeArg args)"
proof (induction args)
  case Nil
  then show ?case by simp
next
  case (Cons v vs)
  then obtain a where "v = JString a" by (auto simp: typeof_string)
  with Cons show ?case by (simp add: sanitizeArgs_callback_string)
qed

theorem sanitizeArgs_agrees_on_strings_witness:
  "typeof (JString ''-y'') = ''string'' \<and>
   typeof (JString (CHR 0x22 # ''--flag'' @ dquote)) = ''string'' \<and>
   (\<exists>r. sanitizeArgs [JString ''-y'', JString (CHR 0x22 # ''--flag'' @ dquote)] = Inr r \<and>
     r = map sanitizeArg [JString ''-y'', JString (CHR 0x22 # ''--flag'' @ dquote)] \<and>
     r = [''-y'', ''--flag''])"
  using sanitizeArgs_agrees_on_strings
    [of "[JString ''-y'', JString (CHR 0x22 # ''--flag'' @ dquote)]"]
  by (simp add: sanitizeArg_string is_quote_def)

text \<open>
  C4: for every input that is not a string, \<^verbatim>\<open>sanitizeArg\<close> returns the empty
  string.
\<close>

theorem sanitizeArg_not_a_string: "typeof v \<noteq> ''string'' \<Longrightarrow> sanitizeArg v = ''''"
  by (simp add: sanitizeArg_def)

theorem sanitizeArg_not_a_string_witness:
  "typeof (JNumber 5) \<noteq> ''string'' \<and> sanitizeArg (JNumber 5) = '''' \<and>
   typeof JUndefined \<noteq> ''string'' \<and> sanitizeArg JUndefined = ''''"
  using sanitizeArg_not_a_string [of "JNumber 5"] sanitizeArg_not_a_string [of JUndefined]
  by simp

text \<open>
  C5, as stated, fails: the string that is one double quote is not wrapped in a pair of
  quotes, and \<^verbatim>\<open>sanitizeArg\<close> does not return it unchanged.
\<close>

theorem lone_dquote_changed_counterexample:
  "\<not> fully_wrapped dquote \<and> sanitizeArg (JString dquote) \<noteq> dquote"
  by (simp add: fully_wrapped_def sanitizeArg_string is_quote_def)

text \<open>
  C5, amended: for every argument string that is an opening quote, a body and a closing
  quote of the same kind (single or double), \<^verbatim>\<open>sanitizeArg\<close> returns the body, so
  exactly one outer layer is removed and a doubly quoted string keeps its inner quotes;
  and every string that is neither so wrapped nor a single quote character on its own
  (mismatched quote pairs included) is returned unchanged.
\<close>

theorem sanitizeArg_strips_one_layer:
  "(is_quote q \<longrightarrow> sanitizeArg (JString (q # body @ [q])) = body) \<and>
   (\<not> fully_wrapped s \<and> s \<noteq> dquote \<and> s \<noteq> squote \<longrightarrow> sanitizeArg (JString s) = s)"
proof (intro conjI impI)
  assume "is_quote q"
  then show "sanitizeArg (JString (q # body @ [q])) = body"
    by (simp add: sanitizeArg_string)
next
  assume "\<not> fully_wrapped s \<and> s \<noteq> dquote \<and> s \<noteq> squote"
  then have "\<not> (s \<noteq> [] \<and> hd s = last s \<and> is_quote (hd s))"
    using not_wrapped_cases by blast
  then show "sanitizeArg (JString s) = s"
    by (simp only: sanitizeArg_string if_False)
qed

theorem sanitizeArg_strips_one_layer_witness:
  "is_quote (CHR 0x22) \<and>
   sanitizeArg (JString (CHR 0x22 # ''--flag'' @ dquote)) = ''--flag'' \<and>
   sanitizeArg (JString (CHR 0x22 # (CHR 0x27 # ''a b'' @ squote) @ dquote))
     = CHR 0x27 # ''a b'' @ squote \<and>
   \<not> fully_wrapped ''--flag'' \<and> sanitizeArg (JString ''--flag'') = ''--flag'' \<and>
   \<not> fully_wrapped (CHR 0x22 # ''x'' @ squote) \<and>
   sanitizeArg (JString (CHR 0x22 # ''x'' @ squote)) = CHR 0x22 # ''x'' @ squote"
  using sanitizeArg_strips_one_layer [of "CHR 0x22" "''--flag''" "''--flag''"]
    sanitizeArg_strips_one_layer
      [of "CHR 0x22" "CHR 0x27 # ''a b'' @ squote" "CHR 0x22 # ''x'' @ squote"]
  by (simp add: is_quote_def fully_wrapped_def)

text \<open>
  C10: on the string that is one double quote, and on the string that is one single
  quote, \<^verbatim>\<open>sanitizeArg\<close> returns the empty string: the same character passes both
  \<^verbatim>\<open>startsWith\<close> and \<^verbatim>\<open>endsWith\<close>, and \<^verbatim>\<open>slice(1, -1)\<close> of one character is
  empty.
\<close>

theorem sanitizeArg_lone_quote:
  "sanitizeArg (JString dquote) = '''' \<and> sanitizeArg (JString squote) = ''''"
  by (simp add: sanitizeArg_def startsWith_def endsWith_def slice_def)

section \<open>Properties of the tool selection\<close>

text \<open>The second loop only adds to the array, and it adds the pair of every key that
  passes its guard.\<close>

lemma secondLoop_keeps: "set out \<subseteq> set (secondLoop bind servers keys out)"
proof (induction keys arbitrary: out)
  case Nil
  then show ?case by simp
next
  case (Cons k ks)
  obtain sid tn where b: "bind k = (sid, tn)" by (cases "bind k")
  have "set out \<subseteq> set (out @ [\<lparr>serverId = sid, toolName = tn\<rparr>])" by auto
  also have "\<dots> \<subseteq> set (secondLoop bind servers ks (out @ [\<lparr>serverId = sid, toolName = tn\<rparr>]))"
    by (rule Cons.IH)
  finally show ?case using b Cons.IH [of out] by simp
qed

lemma secondLoop_pushes:
  "k \<in> set keys \<Longrightarrow> fst (bind k) \<notin> set servers \<Longrightarrow>
     \<lparr>serverId = fst (bind k), toolName = snd (bind k)\<rparr> \<in> set (secondLoop bind servers keys out)"
proof (induction keys arbitrary: out)
  case Nil
  then show ?case by simp
next
  case (Cons a ks)
  obtain sid tn where b: "bind a = (sid, tn)" by (cases "bind a")
  show ?case
  proof (cases "k = a")
    case True
    with Cons.prems b have guard: "sid \<notin> set servers" by simp
    have "\<lparr>serverId = sid, toolName = tn\<rparr> \<in> set (out @ [\<lparr>serverId = sid, toolName = tn\<rparr>])"
      by simp
    then have "\<lparr>serverId = sid, toolName = tn\<rparr>
        \<in> set (secondLoop bind servers ks (out @ [\<lparr>serverId = sid, toolName = tn\<rparr>]))"
      using secondLoop_keeps by blast
    with True b guard show ?thesis by simp
  next
    case False
    with Cons.prems have "k \<in> set ks" by simp
    with Cons.IH Cons.prems(2) b show ?thesis by simp
  qed
qed

text \<open>
  C1, as stated, fails, whatever the two parts that the source leaves out are. The
  capability write of the server files was selected individually and no server is
  selected as a whole; files is connected and its discovery list is now empty.
  \<^verbatim>\<open>getSelectedMCPTools\<close> returns one pair, the one that the key names, although
  the status lists no capability for any server.
\<close>

theorem stale_individual_selection_counterexample:
  "(\<forall>body bind.
      getSelectedMCPTools body bind
        \<lparr>mcpServerStatus = [\<lparr>id' = ''files'', isConnected = True, tools = []\<rparr>],
         selectedMCPTools = [''files:write''], selectedMCPServers = [],
         toolsPopupExpanded = []\<rparr>
      = [\<lparr>serverId = fst (bind ''files:write''), toolName = snd (bind ''files:write'')\<rparr>]) \<and>
   (\<forall>sid. discoveryList [\<lparr>id' = ''files'', isConnected = True, tools = []\<rparr>] sid = [])"
  by (simp add: getSelectedMCPTools_def discoveryList_def split: prod.splits)

text \<open>
  C1, amended: for every selection state and every discovery state, the pair named by
  an individually selected key whose server is not selected as a whole is in the result
  of \<^verbatim>\<open>getSelectedMCPTools\<close>, whatever the discovery lists hold; the names of
  individually selected capabilities are not compared with the live list, so one that
  the server has since lost is still returned. This holds for every first-loop body and
  every way of taking the server id and the tool name from the key.
\<close>

theorem individually_selected_returned_unfiltered:
  assumes "k \<in> set (selectedMCPTools st)"
    and "fst (bind k) \<notin> set (selectedMCPServers st)"
  shows "\<lparr>serverId = fst (bind k), toolName = snd (bind k)\<rparr>
           \<in> set (getSelectedMCPTools body bind (st\<lparr>mcpServerStatus := status\<rparr>))"
  using assms by (simp add: getSelectedMCPTools_def secondLoop_pushes)

theorem individually_selected_returned_unfiltered_witness:
  "''files:write'' \<in> set (selectedMCPTools
      \<lparr>mcpServerStatus =
         [\<lparr>id' = ''files'', isConnected = True,
           tools = [\<lparr>name = ''read''\<rparr>, \<lparr>name = ''write''\<rparr>]\<rparr>],
       selectedMCPTools = [''files:write''], selectedMCPServers = [''web''],
       toolsPopupExpanded = []\<rparr>) \<and>
   ''files'' \<notin> set (selectedMCPServers
      \<lparr>mcpServerStatus =
         [\<lparr>id' = ''files'', isConnected = True,
           tools = [\<lparr>name = ''read''\<rparr>, \<lparr>name = ''write''\<rparr>]\<rparr>],
       selectedMCPTools = [''files:write''], selectedMCPServers = [''web''],
       toolsPopupExpanded = []\<rparr>) \<and>
   \<lparr>serverId = ''files'', toolName = ''write''\<rparr> \<in> set
     (getSelectedMCPTools (\<lambda>st sid out. out)
        (\<lambda>key. (takeWhile (\<lambda>c. c \<noteq> CHR '':'') key,
                 drop 1 (dropWhile (\<lambda>c. c \<noteq> CHR '':'') key)))
        (\<lparr>mcpServerStatus =
            [\<lparr>id' = ''files'', isConnected = True,
              tools = [\<lparr>name = ''read''\<rparr>, \<lparr>name = ''write''\<rparr>]\<rparr>],
          selectedMCPTools = [''files:write''], selectedMCPServers = [''web''],
          toolsPopupExpanded = []\<rparr>
         \<lparr>mcpServerStatus :=
            [\<lparr>id' = ''files'', isConnected = True, tools = [\<lparr>name = ''read''\<rparr>]\<rparr>]\<rparr>)) \<and>
   discoveryList
     [\<lparr>id' = ''files'', isConnected = True, tools = [\<lparr>name = ''read''\<rparr>]\<rparr>] ''files''
     = [''read'']"
  using individually_selected_returned_unfiltered
    [where k = "''files:write''"
       and bind = "\<lambda>key. (takeWhile (\<lambda>c. c \<noteq> CHR '':'') key,
                            drop 1 (dropWhile (\<lambda>c. c \<noteq> CHR '':'') key))"
       and body = "\<lambda>st sid out. out"
       and st = "\<lparr>mcpServerStatus =
           [\<lparr>id' = ''files'', isConnected = True,
             tools = [\<lparr>name = ''read''\<rparr>, \<lparr>name = ''write''\<rparr>]\<rparr>],
         selectedMCPTools = [''files:write''], selectedMCPServers = [''web''],
         toolsPopupExpanded = []\<rparr>"
       and status = "[\<lparr>id' = ''files'', isConnected = True, tools = [\<lparr>name = ''read''\<rparr>]\<rparr>]"]
  by (simp add: discoveryList_def)

lemma split_nonempty: "split s sep \<noteq> []"
proof -
  have "split_from sep cur t \<noteq> []" for cur t
    by (induction t arbitrary: cur) auto
  then show ?thesis by (simp add: split_def)
qed

text \<open>
  The count of \<^verbatim>\<open>updateToolsBadge\<close> against the length of the result of
  \<^verbatim>\<open>getSelectedMCPTools\<close>: on one and the same state the two agree for a first
  loop that adds one pair for each tool of a connected server, and differ for a first
  loop that adds nothing and for one that adds the tools of a server whether it is
  connected or not. Whether they agree is decided by the body that the source leaves
  out.
\<close>

lemma badge_count_and_first_loop_body:
  "toolsBadgeCount
     \<lparr>mcpServerStatus =
        [\<lparr>id' = ''files'', isConnected = True,
          tools = [\<lparr>name = ''read''\<rparr>, \<lparr>name = ''write''\<rparr>]\<rparr>,
         \<lparr>id' = ''web'', isConnected = False, tools = [\<lparr>name = ''get''\<rparr>]\<rparr>],
      selectedMCPTools = [''files:read'', ''web:get'', ''db:query''],
      selectedMCPServers = [''files'', ''web''], toolsPopupExpanded = []\<rparr> = 3 \<and>
   length (getSelectedMCPTools
     (\<lambda>st sid out.
        case find (\<lambda>s. id' s = sid) (mcpServerStatus st) of
          None \<Rightarrow> out
        | Some server \<Rightarrow>
            if isConnected server
            then out @ map (\<lambda>tool. \<lparr>serverId = sid, toolName = name tool\<rparr>) (tools server)
            else out)
     (\<lambda>key. (toolKeyServer key, key))
     \<lparr>mcpServerStatus =
        [\<lparr>id' = ''files'', isConnected = True,
          tools = [\<lparr>name = ''read''\<rparr>, \<lparr>name = ''write''\<rparr>]\<rparr>,
         \<lparr>id' = ''web'', isConnected = False, tools = [\<lparr>name = ''get''\<rparr>]\<rparr>],
      selectedMCPTools = [''files:read'', ''web:get'', ''db:query''],
      selectedMCPServers = [''files'', ''web''], toolsPopupExpanded = []\<rparr>) = 3 \<and>
   length (getSelectedMCPTools
     (\<lambda>st sid out. out)
     (\<lambda>key. (toolKeyServer key, key))
     \<lparr>mcpServerStatus =
        [\<lparr>id' = ''files'', isConnected = True,
          tools = [\<lparr>name = ''read''\<rparr>, \<lparr>name = ''write''\<rparr>]\<rparr>,
         \<lparr>id' = ''web'', isConnected = False, tools = [\<lparr>name = ''get''\<rparr>]\<rparr>],
      selectedMCPTools = [''files:read'', ''web:get'', ''db:query''],
      selectedMCPServers = [''files'', ''web''], toolsPopupExpanded = []\<rparr>) = 1 \<and>
   length (getSelectedMCPTools
     (\<lambda>st sid out.
        case find (\<lambda>s. id' s = sid) (mcpServerStatus st) of
          None \<Rightarrow> out
        | Some server \<Rightarrow>
            out @ map (\<lambda>tool. \<lparr>serverId = sid, toolName = name tool\<rparr>) (tools server))
     (\<lambda>key. (toolKeyServer key, key))
     \<lparr>mcpServerStatus =
        [\<lparr>id' = ''files'', isConnected = True,
          tools = [\<lparr>name = ''read''\<rparr>, \<lparr>name = ''write''\<rparr>]\<rparr>,
         \<lparr>id' = ''web'', isConnected = False, tools = [\<lparr>name = ''get''\<rparr>]\<rparr>],
      selectedMCPTools = [''files:read'', ''web:get'', ''db:query''],
      selectedMCPServers = [''files'', ''web''], toolsPopupExpanded = []\<rparr>) = 4"
  by (simp add: toolsBadgeCount_def getSelectedMCPTools_def toolKeyServer_def split_def)

section \<open>Properties of the streaming blocks\<close>

text \<open>
  C9: after \<^verbatim>\<open>resetStreamingBlocks\<close> the three block maps are empty and the
  running text is the empty string, and resetting twice gives the same state as
  resetting once.
\<close>

theorem resetStreamingBlocks_clears_idempotent:
  "thinkingBlocks (resetStreamingBlocks sb) = Map.empty \<and>
   toolBlocks (resetStreamingBlocks sb) = Map.empty \<and>
   textBlocks (resetStreamingBlocks sb) = Map.empty \<and>
   textContent (resetStreamingBlocks sb) = '''' \<and>
   resetStreamingBlocks (resetStreamingBlocks sb) = resetStreamingBlocks sb"
  by (simp add: resetStreamingBlocks_def)






text \<open>
  C8: for every kind, index and fragment, an append to an index that was never opened,
  or whose block is closed, leaves every block of every kind and the running text
  buffer as they were; the handler returns the state (it does not raise) with the
  dropped event counted.
\<close>

theorem append_unopened_or_closed_dropped:
  assumes "blocks s k i = None \<or> (\<exists>b. blocks s k i = Some b \<and> block_state b = Closed)"
  shows "blocks (append_ev k i fragment s) = blocks s \<and>
         textBuffer (append_ev k i fragment s) = textBuffer s \<and>
         dropped (append_ev k i fragment s) = Suc (dropped s)"
  using assms by (auto simp: append_ev_def)

theorem append_unopened_or_closed_dropped_witness:
  "blocks fresh_assembler Reasoning 2 = None \<and>
   blocks (append_ev Reasoning 2 ''late'' fresh_assembler) = blocks fresh_assembler \<and>
   textBuffer (append_ev Reasoning 2 ''late'' fresh_assembler) = '''' \<and>
   dropped (append_ev Reasoning 2 ''late'' fresh_assembler) = 1 \<and>
   closedContent (close_ev Text 0 (open_ev Text 0 fresh_assembler)) Text 0 = Some '''' \<and>
   textBuffer (append_ev Text 0 ''late'' (close_ev Text 0 (open_ev Text 0 fresh_assembler)))
     = '''' \<and>
   blocks (append_ev Text 0 ''late'' (close_ev Text 0 (open_ev Text 0 fresh_assembler)))
     = blocks (close_ev Text 0 (open_ev Text 0 fresh_assembler))"
  using append_unopened_or_closed_dropped [of fresh_assembler Reasoning 2 "''late''"]
    append_unopened_or_closed_dropped
      [of "close_ev Text 0 (open_ev Text 0 fresh_assembler)" Text 0 "''late''"]
  by (simp add: fresh_assembler_def open_ev_def close_ev_def put_block_def closedContent_def)

end
